theory Spec2Isabelle
  imports Main "HOL-Library.AList"
begin

section \<open>The in-memory store of \<open>lib/Store/make-in-memory-store.js\<close>\<close>

text \<open>
  The store keeps chats, per-chat message lists, contacts, presences, labels, label
  associations and a connection-state bag, and mutates them in the handlers that
  \<open>bind\<close> registers on the event emitter. Every handler is modelled as a function from
  the store before the event to the store after it. Logger calls do not touch the store
  and are left out. The awaits of the \<open>contacts.update\<close> handler are run in place: events
  are applied one at a time.
\<close>

subsection \<open>JavaScript values\<close>

text \<open>
  An optional property of an object: the property is missing (\<open>Absent\<close>), holds
  \<open>undefined\<close> or \<open>null\<close> (\<open>Nullish\<close>: the store never tells the two apart), or
  holds a value. Numbers are integers (the JavaScript safe integers).
\<close>

datatype 'a field = Absent | Nullish | Val 'a

text \<open>Truthiness of a boolean property, as in \<open>c.pinned ? ... : ...\<close>.\<close>

fun truthy :: "bool field \<Rightarrow> bool" where
  "truthy (Val b) = b"
| "truthy _ = False"

text \<open>\<open>x || 0\<close> for a numeric property.\<close>

fun orZero :: "int field \<Rightarrow> int" where
  "orZero (Val n) = n"
| "orZero _ = 0"

text \<open>\<open>x > 0\<close> for a numeric property: \<open>undefined > 0\<close> and \<open>null > 0\<close> are false.\<close>

fun positive :: "int field \<Rightarrow> bool" where
  "positive (Val n) = (0 < n)"
| "positive _ = False"

text \<open>
  One property of \<open>Object.assign(target, source)\<close> and of the spread
  \<open>{...target, ...source}\<close>: an own property of the source, whatever it holds, replaces
  the target's; a property the source does not have is kept.
\<close>

fun assignField :: "'a field \<Rightarrow> 'a field \<Rightarrow> 'a field" where
  "assignField t Absent = t"
| "assignField t s = s"

text \<open>The values of the connection-state bag.\<close>

datatype jsval = JUndefined | JNull | JBool bool | JNum int | JStr string
  | JObj "(string \<times> jsval) list"

text \<open>
  A plain object used as a dictionary is an association list in the order
  \<open>Object.keys\<close> enumerates it: \<open>AList.update k v\<close> is \<open>obj[k] = v\<close> (a known key keeps
  its place, a new one goes last), \<open>AList.delete k\<close> is \<open>delete obj[k]\<close> and \<open>map_of\<close>
  reads a key. The keys are JIDs and field names, never canonical array indices (which
  JavaScript enumerates first) and never names inherited from \<open>Object.prototype\<close>.
\<close>

definition objectAssign :: "('k \<times> 'v) list \<Rightarrow> ('k \<times> 'v) list \<Rightarrow> ('k \<times> 'v) list" where
  "objectAssign target source = fold (\<lambda>(k, v). AList.update k v) source target"

subsection \<open>JIDs\<close>

text \<open>
  \<open>jidDecode\<close> (\<open>lib/WABinary\<close>) returns an object with a \<open>user\<close> property (line 109
  destructures it) or \<open>undefined\<close>; the store receives it through \<open>env\<close> below.
\<close>

record fulljid =
  user :: string
  server :: string

text \<open>
  The \<open>id\<close> of a chat. The \<open>messages.upsert\<close> handler builds a chat whose \<open>id\<close> is what
  \<open>jidDecode\<close> returned, so an id is a string, a decoded-JID object or \<open>undefined\<close>.
\<close>

datatype chatid = IdStr string | IdJid fulljid | IdUndefined

text \<open>
  The string JavaScript makes of an id where it is a property key (\<open>messages[jid]\<close>, the
  id dictionary of the chat collection) or an operand of string \<open>+\<close> (the sort key): a
  plain object gives \<open>[object Object]\<close>, \<open>undefined\<close> gives \<open>undefined\<close>.
\<close>

fun idStr :: "chatid \<Rightarrow> string" where
  "idStr (IdStr s) = s"
| "idStr (IdJid j) = ''[object Object]''"
| "idStr IdUndefined = ''undefined''"

definition jidToId :: "fulljid option \<Rightarrow> chatid" where
  "jidToId r = (case r of None \<Rightarrow> IdUndefined | Some j \<Rightarrow> IdJid j)"

subsection \<open>Entities\<close>

record chat =
  chat_id :: chatid
  pinned :: "bool field"
  archived :: "bool field"
  conversationTimestamp :: "int field"
  unreadCount :: "int field"
  chat_name :: "string field"

text \<open>
  \<open>Object.assign(chat, update)\<close>: a chat update has the shape of a chat with any
  property missing; its \<open>id\<close> is the one the chat was looked up by.
\<close>

definition assignChat :: "chat \<Rightarrow> chat \<Rightarrow> chat" where
  "assignChat c u =
     \<lparr>chat_id = chat_id u,
      pinned = assignField (pinned c) (pinned u),
      archived = assignField (archived c) (archived u),
      conversationTimestamp = assignField (conversationTimestamp c) (conversationTimestamp u),
      unreadCount = assignField (unreadCount c) (unreadCount u),
      chat_name = assignField (chat_name c) (chat_name u)\<rparr>"

record msgkey =
  remoteJid :: string
  msg_id :: "string field"
  fromMe :: bool

record message =
  msg_key :: msgkey
  msg_content :: string

record contact =
  contact_id :: string
  contact_name :: "string field"
  notify :: "string field"
  imgUrl :: "string field"

text \<open>\<open>Object.assign(target, source)\<close> on contacts, and \<open>{...(old || {}), ...contact}\<close>.\<close>

definition assignContact :: "contact \<Rightarrow> contact \<Rightarrow> contact" where
  "assignContact t s =
     \<lparr>contact_id = contact_id s,
      contact_name = assignField (contact_name t) (contact_name s),
      notify = assignField (notify t) (notify s),
      imgUrl = assignField (imgUrl t) (imgUrl s)\<rparr>"

definition spreadContact :: "contact option \<Rightarrow> contact \<Rightarrow> contact" where
  "spreadContact old c = (case old of None \<Rightarrow> c | Some t \<Rightarrow> assignContact t c)"

record label =
  label_id :: string
  label_name :: string
  deleted :: bool

datatype labelAssociation =
    ChatLabelAssociation string string
  | MessageLabelAssociation string string string

record presenceData =
  lastKnownPresence :: string
  lastSeen :: "int field"

subsection \<open>Sort keys\<close>

definition hexDigit :: "nat \<Rightarrow> char" where
  "hexDigit d = ''0123456789abcdef'' ! d"

function toHexNat :: "nat \<Rightarrow> string" where
  "toHexNat n = (if n < 16 then [hexDigit n] else toHexNat (n div 16) @ [hexDigit (n mod 16)])"
  by pat_completeness auto
termination
  by (relation "measure (\<lambda>n. n)") auto

declare toHexNat.simps [simp del]

text \<open>\<open>Number.prototype.toString(16)\<close> on an integer.\<close>

definition toString16 :: "int \<Rightarrow> string" where
  "toString16 t = (if t < 0 then CHR ''-'' # toHexNat (nat (- t)) else toHexNat (nat t))"

definition padStart :: "nat \<Rightarrow> char \<Rightarrow> string \<Rightarrow> string" where
  "padStart n c s = replicate (n - length s) c @ s"

text \<open>The timestamp part of the chat key; \<open>0\<close>, \<open>undefined\<close> and \<open>null\<close> are falsy.\<close>

definition timestampHex :: "int field \<Rightarrow> string" where
  "timestampHex f =
     (case f of Val t \<Rightarrow> if t \<noteq> 0 then padStart 8 (CHR ''0'') (toString16 t) else ''''
      | _ \<Rightarrow> '''')"

text \<open>\<open>waChatKey(pin).key\<close>, line 11.\<close>

definition waChatKey :: "bool \<Rightarrow> chat \<Rightarrow> string" where
  "waChatKey pin c =
     (if pin then (if truthy (pinned c) then ''1'' else ''0'') else '''')
     @ (if truthy (archived c) then ''0'' else ''1'')
     @ timestampHex (conversationTimestamp c)
     @ idStr (chat_id c)"

text \<open>
  \<open>compare: (k1, k2) => k2.localeCompare(k1)\<close>, lines 12 and 19.
  \<open>String.prototype.localeCompare\<close> is the collation of the runtime's locale, not a
  function of the code units alone: it is a parameter \<open>lc\<close>, which the store takes from
  \<open>env\<close> below, and nothing is assumed of it but what a theorem says.
\<close>

definition compareKeys :: "(string \<Rightarrow> string \<Rightarrow> int) \<Rightarrow> string \<Rightarrow> string \<Rightarrow> int" where
  "compareKeys lc k1 k2 = lc k2 k1"

text \<open>\<open>waMessageID\<close>, line 15: \<open>m.key.id || ''\<close>.\<close>

definition waMessageID :: "message \<Rightarrow> string" where
  "waMessageID m = (case msg_id (msg_key m) of Val i \<Rightarrow> i | _ \<Rightarrow> '''')"

text \<open>\<open>waLabelAssociationKey.key\<close>, line 18.\<close>

fun labelAssociationKey :: "labelAssociation \<Rightarrow> string" where
  "labelAssociationKey (ChatLabelAssociation chatId labelId) = chatId @ labelId"
| "labelAssociationKey (MessageLabelAssociation chatId messageId labelId) =
     chatId @ messageId @ labelId"

text \<open>The id getter of the chat collection, \<open>c => c.id\<close>, as the id dictionary reads it.\<close>

definition chatIdGetter :: "chat \<Rightarrow> string" where
  "chatIdGetter c = idStr (chat_id c)"

subsection \<open>The ordered keyed collection\<close>

text \<open>
  Modelled from the spec: \<open>KeyedDB\<close> (package \<open>@adiwajshing/keyed-db\<close>) is not among the
  sources. Section 4.1 of the spec: a set of entities uniquely keyed by id and iterable
  in the order of the comparator on a sort key; \<open>insertIfAbsent\<close> skips existing ids,
  \<open>upsert\<close> inserts or fully replaces and repositions, \<open>update\<close> applies a mutator to the
  existing item and repositions, failing if the id is absent, \<open>deleteById\<close>, \<open>get\<close>,
  \<open>clear\<close>. The collection is the list of its items in iteration order; a new item goes
  before the first item that the comparator \<open>compare\<close> of the collection's key puts after
  it.
\<close>

fun kdbInsertSorted ::
  "(string \<Rightarrow> string \<Rightarrow> int) \<Rightarrow> ('a \<Rightarrow> string) \<Rightarrow> 'a \<Rightarrow> 'a list \<Rightarrow> 'a list" where
  "kdbInsertSorted compare key v [] = [v]"
| "kdbInsertSorted compare key v (w # ws) =
     (if compare (key v) (key w) < 0 then v # w # ws
      else w # kdbInsertSorted compare key v ws)"

text \<open>Modelled from the spec: \<open>get(id)\<close> of \<open>KeyedDB\<close>, the item with that id if any.\<close>

definition kdbGet :: "('a \<Rightarrow> string) \<Rightarrow> 'a list \<Rightarrow> string \<Rightarrow> 'a option" where
  "kdbGet idGetter db i = find (\<lambda>w. idGetter w = i) db"

text \<open>Modelled from the spec: \<open>deleteById(id)\<close> of \<open>KeyedDB\<close>.\<close>

definition kdbDeleteById :: "('a \<Rightarrow> string) \<Rightarrow> string \<Rightarrow> 'a list \<Rightarrow> 'a list" where
  "kdbDeleteById idGetter i db = filter (\<lambda>w. idGetter w \<noteq> i) db"

text \<open>Modelled from the spec: \<open>delete(item)\<close> of \<open>KeyedDB\<close>, by the item's id.\<close>

definition kdbDelete :: "('a \<Rightarrow> string) \<Rightarrow> 'a \<Rightarrow> 'a list \<Rightarrow> 'a list" where
  "kdbDelete idGetter v db = kdbDeleteById idGetter (idGetter v) db"

text \<open>Modelled from the spec: \<open>clear()\<close> of \<open>KeyedDB\<close>.\<close>

definition kdbClear :: "'a list \<Rightarrow> 'a list" where
  "kdbClear db = []"

text \<open>
  Modelled from the spec: \<open>insertIfAbsent(items...)\<close> of \<open>KeyedDB\<close>, which skips an item
  whose id is already there.
\<close>

fun kdbInsertIfAbsent ::
  "(string \<Rightarrow> string \<Rightarrow> int) \<Rightarrow> ('a \<Rightarrow> string) \<Rightarrow> ('a \<Rightarrow> string) \<Rightarrow> 'a list \<Rightarrow> 'a list
   \<Rightarrow> 'a list" where
  "kdbInsertIfAbsent compare key idGetter [] db = db"
| "kdbInsertIfAbsent compare key idGetter (v # vs) db =
     kdbInsertIfAbsent compare key idGetter vs
       (case kdbGet idGetter db (idGetter v) of
          Some w \<Rightarrow> db
        | None \<Rightarrow> kdbInsertSorted compare key v db)"

text \<open>
  Modelled from the spec: \<open>upsert(items...)\<close> of \<open>KeyedDB\<close>, insert or fully replace, the
  item placed by its current sort key.
\<close>

definition kdbUpsertOne ::
  "(string \<Rightarrow> string \<Rightarrow> int) \<Rightarrow> ('a \<Rightarrow> string) \<Rightarrow> ('a \<Rightarrow> string) \<Rightarrow> 'a \<Rightarrow> 'a list \<Rightarrow> 'a list" where
  "kdbUpsertOne compare key idGetter v db =
     kdbInsertSorted compare key v (kdbDeleteById idGetter (idGetter v) db)"

text \<open>Modelled from the spec: \<open>upsert\<close> of \<open>KeyedDB\<close> on several items, in order.\<close>

definition kdbUpsert ::
  "(string \<Rightarrow> string \<Rightarrow> int) \<Rightarrow> ('a \<Rightarrow> string) \<Rightarrow> ('a \<Rightarrow> string) \<Rightarrow> 'a list \<Rightarrow> 'a list
   \<Rightarrow> 'a list" where
  "kdbUpsert compare key idGetter vs db = fold (kdbUpsertOne compare key idGetter) vs db"

text \<open>
  Modelled from the spec: \<open>update(id, mutator)\<close> of \<open>KeyedDB\<close>, which applies the mutator to
  the existing item and repositions it; the flag tells whether the id was there.
\<close>

definition kdbUpdate ::
  "(string \<Rightarrow> string \<Rightarrow> int) \<Rightarrow> ('a \<Rightarrow> string) \<Rightarrow> ('a \<Rightarrow> string) \<Rightarrow> string \<Rightarrow> ('a \<Rightarrow> 'a)
   \<Rightarrow> 'a list \<Rightarrow> 'a list \<times> bool" where
  "kdbUpdate compare key idGetter i mutator db =
     (case kdbGet idGetter db i of
        None \<Rightarrow> (db, False)
      | Some v \<Rightarrow>
          (kdbInsertSorted compare key (mutator v) (kdbDeleteById idGetter i db), True))"

subsection \<open>The ordered message dictionary\<close>

text \<open>
  Modelled from the spec: \<open>makeOrderedDictionary\<close> (\<open>lib/Store/make-ordered-dictionary\<close>)
  is not among the sources. Section 4.2 of the spec: \<open>upsert(item, direction)\<close> inserts an
  item of unknown id at the front (\<open>prepend\<close>) or the back (\<open>append\<close>) and replaces the
  content of a known id in place, its position unchanged.
\<close>

definition dictUpsert :: "('a \<Rightarrow> string) \<Rightarrow> 'a \<Rightarrow> string \<Rightarrow> 'a list \<Rightarrow> 'a list" where
  "dictUpsert idGetter item mode xs =
     (if idGetter item \<in> set (map idGetter xs)
      then map (\<lambda>x. if idGetter x = idGetter item then item else x) xs
      else if mode = ''append'' then xs @ [item] else item # xs)"

subsection \<open>The label repository\<close>

text \<open>
  Modelled from the spec: \<open>ObjectRepository\<close> (\<open>lib/Store/object-repository\<close>) is not
  among the sources. Section 4.3 of the spec: \<open>upsertById(id, item)\<close> is rejected, the item
  not stored, if the current count is already 20 and \<open>id\<close> is not already present, and
  otherwise inserts or replaces; \<open>deleteById(id)\<close> removes unconditionally if present;
  \<open>count()\<close> is the number of stored items.
\<close>

definition upsertById :: "string \<Rightarrow> 'a \<Rightarrow> (string \<times> 'a) list \<Rightarrow> (string \<times> 'a) list" where
  "upsertById i item repo =
     (if length repo = 20 \<and> i \<notin> set (map fst repo) then repo else AList.update i item repo)"

text \<open>Modelled from the spec: \<open>deleteById(id)\<close> of \<open>ObjectRepository\<close>.\<close>

definition deleteById :: "string \<Rightarrow> (string \<times> 'a) list \<Rightarrow> (string \<times> 'a) list" where
  "deleteById i repo = AList.delete i repo"

text \<open>Modelled from the spec: \<open>count()\<close> of \<open>ObjectRepository\<close>.\<close>

definition count :: "(string \<times> 'a) list \<Rightarrow> nat" where
  "count repo = length repo"

subsection \<open>The store\<close>

text \<open>
  What the store is given: \<open>config.socket\<close> with its \<open>profilePictureUrl\<close> (which gives a
  URL or nothing), and the two imported helpers used by the handlers, \<open>jidDecode\<close> and
  \<open>md5\<close> followed by \<open>toString('base64')\<close>, and the runtime's
  \<open>String.prototype.localeCompare\<close>, \<open>localeCompare a b\<close> standing for
  \<open>a.localeCompare(b)\<close>. The chat and label-association keys are the defaults
  \<open>waChatKey(true)\<close> and \<open>waLabelAssociationKey\<close>.
\<close>

record env =
  socket :: "(string \<Rightarrow> string option) option"
  jidDecode :: "string \<Rightarrow> fulljid option"
  md5Base64 :: "string \<Rightarrow> string"
  localeCompare :: "string \<Rightarrow> string \<Rightarrow> int"

record store =
  chats :: "chat list"
  messages :: "(string \<times> message list) list"
  contacts :: "(string \<times> contact) list"
  groupMetadata :: "(string \<times> string) list"
  presences :: "(string \<times> (string \<times> presenceData) list) list"
  state :: "(string \<times> jsval) list"
  labels :: "(string \<times> label) list"
  labelAssociations :: "labelAssociation list"

text \<open>Lines 34 to 41.\<close>

definition initialStore :: store where
  "initialStore =
     \<lparr>chats = [], messages = [], contacts = [], groupMetadata = [], presences = [],
      state = [(''connection'', JStr ''close'')], labels = [], labelAssociations = []\<rparr>"

text \<open>
  The object the factory returns, lines 204 to 213: its property names in order, each
  with the collection it holds (\<open>bind\<close> is the function of lines 65 to 202). A consumer
  of the store reads the store through these properties and no others.
\<close>

datatype exposedValue =
    BindFunction
  | ChatCollection "chat list"
  | ContactMap "(string \<times> contact) list"
  | MessageMap "(string \<times> message list) list"
  | PresenceMap "(string \<times> (string \<times> presenceData) list) list"
  | LabelRepository "(string \<times> label) list"
  | LabelAssociationCollection "labelAssociation list"
  | GroupMetadataMap "(string \<times> string) list"

definition returned :: "store \<Rightarrow> (string \<times> exposedValue) list" where
  "returned s =
     [(''bind'', BindFunction),
      (''chats'', ChatCollection (chats s)),
      (''contacts'', ContactMap (contacts s)),
      (''messages'', MessageMap (messages s)),
      (''presences'', PresenceMap (presences s)),
      (''labels'', LabelRepository (labels s)),
      (''labelAssociations'', LabelAssociationCollection (labelAssociations s)),
      (''groupMetadata'', GroupMetadataMap (groupMetadata s))]"

definition chatKey :: "chat \<Rightarrow> string" where
  "chatKey = waChatKey True"

text \<open>
  \<open>assertMessageList(jid)\<close> followed by \<open>list.upsert(msg, mode)\<close>, lines 43 to 48 with 93
  and 190: the list under the property key \<open>jid\<close> is created empty when there is none.
\<close>

definition upsertMessage ::
  "string \<Rightarrow> message \<Rightarrow> string \<Rightarrow> (string \<times> message list) list \<Rightarrow> (string \<times> message list) list" where
  "upsertMessage jid msg mode ms =
     (let list = (case map_of ms jid of None \<Rightarrow> [] | Some l \<Rightarrow> l)
      in AList.update jid (dictUpsert waMessageID msg mode list) ms)"

text \<open>
  \<open>contactsUpsert\<close>, lines 50 to 57, as a loop over the new contacts that carries the set
  \<open>oldContacts\<close> (kept as the list of the keys still in it) and the contact map.
\<close>

fun contactsUpsertLoop ::
  "contact list \<Rightarrow> string list \<times> (string \<times> contact) list \<Rightarrow> string list \<times> (string \<times> contact) list" where
  "contactsUpsertLoop [] acc = acc"
| "contactsUpsertLoop (c # cs) (oldContacts, m) =
     contactsUpsertLoop cs
       (removeAll (contact_id c) oldContacts,
        AList.update (contact_id c) (spreadContact (map_of m (contact_id c)) c) m)"

definition contactsUpsert ::
  "contact list \<Rightarrow> (string \<times> contact) list \<Rightarrow> string list \<times> (string \<times> contact) list" where
  "contactsUpsert newContacts m = contactsUpsertLoop newContacts (remdups (map fst m), m)"

subsection \<open>The handlers\<close>

text \<open>\<open>connection.update\<close>, lines 66 to 72; a falsy payload is \<open>None\<close>.\<close>

definition connectionUpdate :: "(string \<times> jsval) list option \<Rightarrow> store \<Rightarrow> store" where
  "connectionUpdate update s =
     (case update of
        None \<Rightarrow> s
      | Some u \<Rightarrow> s\<lparr>state := objectAssign (state s) u\<rparr>)"

text \<open>\<open>messaging-history.set\<close>, lines 74 to 96.\<close>

definition messagingHistorySet ::
  "env \<Rightarrow> chat list \<Rightarrow> contact list \<Rightarrow> message list \<Rightarrow> bool \<Rightarrow> store \<Rightarrow> store" where
  "messagingHistorySet e newChats newContacts newMessages isLatest s =
     (let chats1 = (if isLatest then kdbClear (chats s) else chats s);
          messages1 = (if isLatest then [] else messages s);
          chats2 = kdbInsertIfAbsent (compareKeys (localeCompare e)) chatKey chatIdGetter
                     newChats chats1;
          upserted = contactsUpsert newContacts (contacts s);
          contacts2 = (if isLatest then fold AList.delete (fst upserted) (snd upserted)
                       else snd upserted);
          messages2 = fold (\<lambda>msg. upsertMessage (remoteJid (msg_key msg)) msg ''prepend'')
                        newMessages messages1
      in s\<lparr>chats := chats2, contacts := contacts2, messages := messages2\<rparr>)"

text \<open>\<open>contacts.upsert\<close>, lines 98 to 100.\<close>

definition contactsUpsertEvent :: "contact list \<Rightarrow> store \<Rightarrow> store" where
  "contactsUpsertEvent newContacts s = s\<lparr>contacts := snd (contactsUpsert newContacts (contacts s))\<rparr>"

text \<open>
  \<open>contacts.update\<close>, lines 102 to 126. \<open>contactHashes\<close> is the \<open>Promise.all\<close> of lines 108
  to 111: destructuring \<open>user\<close> from an id that \<open>jidDecode\<close> does not decode throws, which
  is \<open>None\<close>.
\<close>

fun contactHashes :: "env \<Rightarrow> string list \<Rightarrow> (string \<times> string) list option" where
  "contactHashes e [] = Some []"
| "contactHashes e (contactId # ks) =
     (case jidDecode e contactId of
        None \<Rightarrow> None
      | Some j \<Rightarrow>
          (case contactHashes e ks of
             None \<Rightarrow> None
           | Some hs \<Rightarrow> Some ((contactId, take 3 (md5Base64 e (user j @ ''WA_ADD_NOTIF''))) # hs)))"

text \<open>
  The property key under which lines 105 to 113 read \<open>contact\<close>: \<open>update.id\<close> when it is a
  key of the map, else the id of the first contact whose hash is \<open>update.id\<close>, else the
  empty string. \<open>None\<close> when computing the hashes throws.
\<close>

definition contactKey :: "env \<Rightarrow> (string \<times> contact) list \<Rightarrow> contact \<Rightarrow> string option" where
  "contactKey e m update =
     (if map_of m (contact_id update) \<noteq> None then Some (contact_id update)
      else (case contactHashes e (map fst m) of
              None \<Rightarrow> None
            | Some hs \<Rightarrow>
                Some (case find (\<lambda>(a, b). b = contact_id update) hs of
                        Some (a, b) \<Rightarrow> a
                      | None \<Rightarrow> '''')))"

text \<open>Lines 114 to 119 on the contact found.\<close>

definition applyImgUrl :: "env \<Rightarrow> contact \<Rightarrow> contact \<Rightarrow> contact" where
  "applyImgUrl e update c =
     (if imgUrl update = Val ''changed''
      then c\<lparr>imgUrl :=
                (case socket e of
                   Some sock \<Rightarrow> (case sock (contact_id c) of Some url \<Rightarrow> Val url | None \<Rightarrow> Nullish)
                 | None \<Rightarrow> Nullish)\<rparr>
      else if imgUrl update = Val ''removed'' then c\<lparr>imgUrl := Absent\<rparr>
      else c)"

text \<open>
  How one pass of the loop body ends: it falls through to the next update, it leaves
  the handler by the \<open>return\<close> of line 122, or it throws.
\<close>

datatype exit = Continues | Returns | Throws

text \<open>
  One pass of the loop body. \<open>contact\<close> is the object stored under the key found, so the
  assignments of lines 116 and 118 change the map; line 124 then copies that object's
  properties onto \<open>contacts[contact.id]\<close>, and throws when there is no such entry.
\<close>

definition contactsUpdateOne :: "env \<Rightarrow> contact \<Rightarrow> (string \<times> contact) list \<Rightarrow> (string \<times> contact) list \<times> exit" where
  "contactsUpdateOne e update m =
     (case contactKey e m update of
        None \<Rightarrow> (m, Throws)
      | Some k \<Rightarrow>
          (case map_of m k of
             None \<Rightarrow> (m, Returns)
           | Some c \<Rightarrow>
               (let c' = applyImgUrl e update c;
                    m1 = AList.update k c' m
                in (case map_of m1 (contact_id c') of
                      None \<Rightarrow> (m1, Throws)
                    | Some target \<Rightarrow>
                        (AList.update (contact_id c') (assignContact target c') m1, Continues)))))"

fun contactsUpdateLoop :: "env \<Rightarrow> contact list \<Rightarrow> (string \<times> contact) list \<Rightarrow> (string \<times> contact) list" where
  "contactsUpdateLoop e [] m = m"
| "contactsUpdateLoop e (update # updates) m =
     (case contactsUpdateOne e update m of
        (m', Continues) \<Rightarrow> contactsUpdateLoop e updates m'
      | (m', Returns) \<Rightarrow> m'
      | (m', Throws) \<Rightarrow> m')"

definition contactsUpdate :: "env \<Rightarrow> contact list \<Rightarrow> store \<Rightarrow> store" where
  "contactsUpdate e updates s = s\<lparr>contacts := contactsUpdateLoop e updates (contacts s)\<rparr>"

text \<open>\<open>chats.upsert\<close>, lines 128 to 130.\<close>

definition chatsUpsert :: "env \<Rightarrow> chat list \<Rightarrow> store \<Rightarrow> store" where
  "chatsUpsert e newChats s =
     s\<lparr>chats := kdbUpsert (compareKeys (localeCompare e)) chatKey chatIdGetter newChats (chats s)\<rparr>"

text \<open>\<open>chats.update\<close>, lines 132 to 145: the mutator of lines 134 to 140, then the loop.\<close>

definition chatMutator :: "chat \<Rightarrow> chat \<Rightarrow> chat" where
  "chatMutator update c =
     (if positive (unreadCount update)
      then assignChat c (update\<lparr>unreadCount := Val (orZero (unreadCount c) + orZero (unreadCount update))\<rparr>)
      else assignChat c update)"

definition chatsUpdateOne :: "env \<Rightarrow> chat \<Rightarrow> chat list \<Rightarrow> chat list" where
  "chatsUpdateOne e update db =
     fst (kdbUpdate (compareKeys (localeCompare e)) chatKey chatIdGetter (idStr (chat_id update))
            (chatMutator update) db)"

definition chatsUpdate :: "env \<Rightarrow> chat list \<Rightarrow> store \<Rightarrow> store" where
  "chatsUpdate e updates s = s\<lparr>chats := fold (chatsUpdateOne e) updates (chats s)\<rparr>"

text \<open>\<open>labelsUpsert\<close>, lines 59 to 63 (no handler calls it).\<close>

definition labelsUpsert :: "label list \<Rightarrow> (string \<times> label) list \<Rightarrow> (string \<times> label) list" where
  "labelsUpsert newLabels repo = fold (\<lambda>l. upsertById (label_id l) l) newLabels repo"

text \<open>\<open>labels.edit\<close>, lines 147 to 155.\<close>

definition labelsEdit :: "label \<Rightarrow> store \<Rightarrow> store" where
  "labelsEdit l s =
     (if deleted l then s\<lparr>labels := deleteById (label_id l) (labels s)\<rparr>
      else if count (labels s) < 20 then s\<lparr>labels := upsertById (label_id l) l (labels s)\<rparr>
      else s)"

text \<open>\<open>labels.association\<close>, lines 157 to 168.\<close>

definition labelsAssociation :: "env \<Rightarrow> string \<Rightarrow> labelAssociation \<Rightarrow> store \<Rightarrow> store" where
  "labelsAssociation e type association s =
     (if type = ''add''
      then s\<lparr>labelAssociations :=
               kdbUpsert (compareKeys (localeCompare e)) labelAssociationKey labelAssociationKey
                 [association] (labelAssociations s)\<rparr>
      else if type = ''remove''
      then s\<lparr>labelAssociations := kdbDelete labelAssociationKey association (labelAssociations s)\<rparr>
      else s)"

text \<open>\<open>presence.update\<close>, lines 170 to 173.\<close>

definition presenceUpdate :: "string \<Rightarrow> (string \<times> presenceData) list \<Rightarrow> store \<Rightarrow> store" where
  "presenceUpdate i update s =
     (let old = (case map_of (presences s) i of None \<Rightarrow> [] | Some p \<Rightarrow> p)
      in s\<lparr>presences := AList.update i (objectAssign old update) (presences s)\<rparr>)"

text \<open>\<open>chats.delete\<close>, lines 175 to 181.\<close>

definition chatsDeleteOne :: "string \<Rightarrow> chat list \<Rightarrow> chat list" where
  "chatsDeleteOne item db =
     (case kdbGet chatIdGetter db item of
        Some c \<Rightarrow> kdbDeleteById chatIdGetter item db
      | None \<Rightarrow> db)"

definition chatsDelete :: "string list \<Rightarrow> store \<Rightarrow> store" where
  "chatsDelete deletions s = s\<lparr>chats := fold chatsDeleteOne deletions (chats s)\<rparr>"

text \<open>
  \<open>messages.upsert\<close>, lines 183 to 201. \<open>jid\<close> is what \<open>jidDecode\<close> returns; as the
  property key of \<open>messages\<close> and the id looked up in the chat collection it is the string
  \<open>idStr\<close> makes of it. \<open>ev.emit('chats.upsert', ...)\<close> runs the handler of lines 128 to
  130 at once.
\<close>

definition messagesUpsertOne :: "env \<Rightarrow> string \<Rightarrow> message \<Rightarrow> store \<Rightarrow> store" where
  "messagesUpsertOne e type msg s =
     (let jid = jidToId (jidDecode e (remoteJid (msg_key msg)));
          s1 = s\<lparr>messages := upsertMessage (idStr jid) msg ''append'' (messages s)\<rparr>
      in if type = ''notify'' \<and> kdbGet chatIdGetter (chats s1) (idStr jid) = None
         then chatsUpsert e
                [\<lparr>chat_id = jid, pinned = Absent, archived = Absent,
                  conversationTimestamp = Absent, unreadCount = Absent,
                  chat_name = Val (remoteJid (msg_key msg))\<rparr>] s1
         else s1)"

definition messagesUpsert :: "env \<Rightarrow> message list \<Rightarrow> string \<Rightarrow> store \<Rightarrow> store" where
  "messagesUpsert e newMessages type s =
     (if type = ''append'' \<or> type = ''notify''
      then fold (messagesUpsertOne e type) newMessages s
      else s)"

subsection \<open>Events\<close>

datatype event =
    ConnectionUpdate "(string \<times> jsval) list option"
  | MessagingHistorySet "chat list" "contact list" "message list" bool
  | ContactsUpsert "contact list"
  | ContactsUpdate "contact list"
  | ChatsUpsert "chat list"
  | ChatsUpdate "chat list"
  | LabelsEdit label
  | LabelsAssociation string labelAssociation
  | PresenceUpdate string "(string \<times> presenceData) list"
  | ChatsDelete "string list"
  | MessagesUpsert "message list" string

fun applyEvent :: "env \<Rightarrow> event \<Rightarrow> store \<Rightarrow> store" where
  "applyEvent e (ConnectionUpdate update) s = connectionUpdate update s"
| "applyEvent e (MessagingHistorySet newChats newContacts newMessages isLatest) s =
     messagingHistorySet e newChats newContacts newMessages isLatest s"
| "applyEvent e (ContactsUpsert newContacts) s = contactsUpsertEvent newContacts s"
| "applyEvent e (ContactsUpdate updates) s = contactsUpdate e updates s"
| "applyEvent e (ChatsUpsert newChats) s = chatsUpsert e newChats s"
| "applyEvent e (ChatsUpdate updates) s = chatsUpdate e updates s"
| "applyEvent e (LabelsEdit l) s = labelsEdit l s"
| "applyEvent e (LabelsAssociation type association) s = labelsAssociation e type association s"
| "applyEvent e (PresenceUpdate i update) s = presenceUpdate i update s"
| "applyEvent e (ChatsDelete deletions) s = chatsDelete deletions s"
| "applyEvent e (MessagesUpsert newMessages type) s = messagesUpsert e newMessages type s"

text \<open>The events of a stream applied in arrival order.\<close>

definition applyAll :: "env \<Rightarrow> event list \<Rightarrow> store \<Rightarrow> store" where
  "applyAll e evs s = fold (applyEvent e) evs s"

subsection \<open>Conditions on timestamps and example data\<close>






text \<open>The pair a label is stored as: its id and the label.\<close>

definition labelEntry :: "label \<Rightarrow> string \<times> label" where
  "labelEntry l = (label_id l, l)"

text \<open>
  Modelled from the spec: \<open>jidDecode\<close> (\<open>lib/WABinary\<close>) is not among the sources. The
  spec's identity-resolution example takes the user part of \<open>1234567890@s.whatsapp.net\<close>
  to be \<open>1234567890\<close>: the text before the \<open>@\<close>; an id without \<open>@\<close> does not decode. Used
  only to run the handlers on examples.
\<close>

definition jidDecodeAt :: "string \<Rightarrow> fulljid option" where
  "jidDecodeAt jid =
     (if CHR ''@'' \<in> set jid
      then Some \<lparr>user = takeWhile (\<lambda>c. c \<noteq> CHR ''@'') jid,
                 server = tl (dropWhile (\<lambda>c. c \<noteq> CHR ''@'') jid)\<rparr>
      else None)"

text \<open>
  A comparator to run the examples with: the order of the code units. It stands in for
  the runtime's collation, which orders and equates strings differently.
\<close>

fun lexLess :: "string \<Rightarrow> string \<Rightarrow> bool" where
  "lexLess [] [] = False"
| "lexLess [] (y # ys) = True"
| "lexLess (x # xs) [] = False"
| "lexLess (x # xs) (y # ys) =
     ((of_char x :: nat) < of_char y \<or> (x = y \<and> lexLess xs ys))"

definition codeUnitCompare :: "string \<Rightarrow> string \<Rightarrow> int" where
  "codeUnitCompare a b = (if lexLess a b then - 1 else if a = b then 0 else 1)"

text \<open>
  An environment for the examples: no socket, in place of the MD5 digest a stand-in that
  returns its input reversed, and the comparator above.
\<close>

definition env0 :: env where
  "env0 = \<lparr>socket = None, jidDecode = jidDecodeAt, md5Base64 = rev,
           localeCompare = codeUnitCompare\<rparr>"





definition chatTs5 :: chat where
  "chatTs5 = \<lparr>chat_id = IdStr ''y'', pinned = Val True, archived = Absent,
     conversationTimestamp = Val 5, unreadCount = Val 2, chat_name = Absent\<rparr>"

text \<open>The label number \<open>n\<close> with a given name, and a repository holding twenty labels.\<close>

definition label20 :: "nat \<Rightarrow> string \<Rightarrow> label" where
  "label20 n nm = \<lparr>label_id = replicate (Suc n) CHR ''L'', label_name = nm, deleted = False\<rparr>"

definition fullLabels :: "(string \<times> label) list" where
  "fullLabels = map (\<lambda>n. labelEntry (label20 n ''old'')) [0..<20]"

definition fullStore :: store where
  "fullStore = initialStore\<lparr>labels := fullLabels\<rparr>"

definition labels21 :: "label list" where
  "labels21 = map (\<lambda>n. label20 n ''new'') [0..<21]"





text \<open>Every contact is stored under its own id.\<close>

definition keyedById :: "(string \<times> contact) list \<Rightarrow> bool" where
  "keyedById m = list_all (\<lambda>(k, c). contact_id c = k) m"

text \<open>An environment whose socket answers every id with a URL.\<close>

definition env1 :: env where
  "env1 = env0\<lparr>socket := Some (\<lambda>i. Some (''https://pps.example/'' @ i))\<rparr>"

definition contactJ :: contact where
  "contactJ = \<lparr>contact_id = ''1234567890@s.whatsapp.net'', contact_name = Val ''Old'',
     notify = Absent, imgUrl = Val ''https://old.example/p.jpg''\<rparr>"

definition storeJ :: store where
  "storeJ = initialStore\<lparr>contacts := [(''1234567890@s.whatsapp.net'', contactJ)]\<rparr>"

definition updateName :: contact where
  "updateName = \<lparr>contact_id = ''1234567890@s.whatsapp.net'', contact_name = Val ''New'',
     notify = Absent, imgUrl = Absent\<rparr>"

text \<open>
  An update keyed by the fingerprint of \<open>contactJ\<close> under \<open>env0\<close>: the first three
  characters of the reversed \<open>1234567890WA_ADD_NOTIF\<close>.
\<close>

definition updateByHash :: contact where
  "updateByHash = \<lparr>contact_id = ''FIT'', contact_name = Val ''New'',
     notify = Absent, imgUrl = Val ''changed''\<rparr>"

definition updateUnknown :: contact where
  "updateUnknown = \<lparr>contact_id = ''zzz'', contact_name = Absent, notify = Absent,
     imgUrl = Absent\<rparr>"

definition updateRemoved :: contact where
  "updateRemoved = \<lparr>contact_id = ''1234567890@s.whatsapp.net'', contact_name = Absent,
     notify = Absent, imgUrl = Val ''removed''\<rparr>"

definition msg1 :: message where
  "msg1 = \<lparr>msg_key = \<lparr>remoteJid = ''1234567890@s.whatsapp.net'', msg_id = Val ''m1'',
     fromMe = False\<rparr>, msg_content = ''hello''\<rparr>"

definition msg2 :: message where
  "msg2 = \<lparr>msg_key = \<lparr>remoteJid = ''555@s.whatsapp.net'', msg_id = Val ''m2'',
     fromMe = False\<rparr>, msg_content = ''other chat''\<rparr>"

text \<open>A store holding the chat \<open>y\<close> with two unread messages, and three updates.\<close>

definition storeY :: store where
  "storeY = initialStore\<lparr>chats := [chatTs5]\<rparr>"

definition updateUnread :: "string \<Rightarrow> int \<Rightarrow> chat" where
  "updateUnread i n = \<lparr>chat_id = IdStr i, pinned = Absent, archived = Absent,
     conversationTimestamp = Absent, unreadCount = Val n, chat_name = Absent\<rparr>"








section \<open>Properties\<close>

subsection \<open>Chat sort keys\<close>





subsection \<open>The connection state\<close>

lemma map_of_objectAssign: "map_of (objectAssign t u) = map_of t ++ map_of (rev u)"
  unfolding objectAssign_def
proof (induction u arbitrary: t)
  case Nil
  then show ?case by simp
next
  case (Cons p u)
  obtain k v where p: "p = (k, v)" by (cases p)
  have "map_of (fold (\<lambda>(k, v). AList.update k v) u (AList.update k v t))
        = map_of (AList.update k v t) ++ map_of (rev u)"
    by (rule Cons.IH)
  then show ?case
    by (simp add: p update_conv' fun_eq_iff map_add_def split: option.splits)
qed

lemma keys_objectAssign: "fst ` set (objectAssign t u) = fst ` set t \<union> fst ` set u"
  unfolding objectAssign_def
  by (induction u arbitrary: t) (auto simp: dom_update split: prod.splits)

lemma returned_connectionUpdate: "returned (applyEvent e (ConnectionUpdate p) s) = returned s"
  by (cases p) (simp_all add: connectionUpdate_def returned_def)

text \<open>
  C10, as the claim states it, fails: the object the factory returns has no \<open>state\<close>
  property, and a \<open>connection.update\<close> that changes the bag changes nothing a consumer
  can read: the bag is not exposed.
\<close>

theorem connection_state_not_returned:
  "map_of (returned initialStore) ''state'' = None
   \<and> state (applyEvent env0 (ConnectionUpdate (Some [(''connection'', JStr ''open'')])) initialStore)
       = [(''connection'', JStr ''open'')]
   \<and> returned (applyEvent env0 (ConnectionUpdate (Some [(''connection'', JStr ''open'')])) initialStore)
       = returned initialStore"
  by code_simp

text \<open>
  C10, amended. The connection-state bag is a variable of the factory that the returned
  object does not hold: no property of the returned object is named \<open>state\<close> and none
  changes with a \<open>connection.update\<close>. Before any event the bag is exactly
  \<open>connection = 'close'\<close>. A \<open>connection.update\<close> with a payload merges it into the bag
  field by field: a field of the payload takes the payload's value (the payload read as
  JavaScript reads an object, a later entry for the same name winning), the fields of the
  bag afterwards are those it had and those of the payload, and a field the payload does
  not name keeps its value, the initial \<open>connection\<close> among them.
\<close>

theorem connection_state_bag:
  "state initialStore = [(''connection'', JStr ''close'')]
   \<and> map_of (state (applyEvent e (ConnectionUpdate (Some u)) s))
       = map_of (state s) ++ map_of (rev u)
   \<and> fst ` set (state (applyEvent e (ConnectionUpdate (Some u)) s))
       = fst ` set (state s) \<union> fst ` set u
   \<and> (k \<notin> fst ` set u \<longrightarrow>
        map_of (state (applyEvent e (ConnectionUpdate (Some u)) s)) k = map_of (state s) k)
   \<and> map_of (returned s) ''state'' = None
   \<and> returned (applyEvent e (ConnectionUpdate p) s) = returned s"
proof -
  have a: "k \<notin> fst ` set u \<Longrightarrow> map_of (rev u) k = None"
    by (simp add: map_of_eq_None_iff)
  have r: "map_of (returned s) ''state'' = None" by (simp add: returned_def)
  show ?thesis
    using r returned_connectionUpdate [of e p s]
    by (simp add: initialStore_def connectionUpdate_def map_of_objectAssign keys_objectAssign
        map_add_def a)
qed

theorem connection_state_bag_witness:
  "''connection'' \<notin> fst ` set [(''qr'', JStr ''code'')]
   \<and> map_of (state (applyEvent env0 (ConnectionUpdate (Some [(''qr'', JStr ''code'')])) initialStore))
        ''connection'' = Some (JStr ''close'')
   \<and> map_of (state (applyEvent env0 (ConnectionUpdate (Some [(''qr'', JStr ''code'')])) initialStore))
        ''qr'' = Some (JStr ''code'')
   \<and> returned (applyEvent env0 (ConnectionUpdate (Some [(''qr'', JStr ''code'')])) initialStore)
       = returned initialStore"
  using connection_state_bag [of env0 "[(''qr'', JStr ''code'')]" initialStore "''connection''"
      "Some [(''qr'', JStr ''code'')]"]
  by (simp add: initialStore_def)

subsection \<open>Labels\<close>

text \<open>
  C8, as the claim states it, fails: with twenty labels stored, a \<open>labels.edit\<close> that
  renames the stored label \<open>L\<close> leaves the old label in place.
\<close>

theorem labels_edit_existing_at_capacity:
  "\<not> deleted (label20 0 ''new'')
   \<and> count (labels fullStore) = 20
   \<and> label_id (label20 0 ''new'') \<in> fst ` set (labels fullStore)
   \<and> map_of (labels (applyEvent env0 (LabelsEdit (label20 0 ''new'')) fullStore))
        (label_id (label20 0 ''new'')) = Some (label20 0 ''old'')"
  by code_simp

text \<open>
  C8, amended: a \<open>labels.edit\<close> event without the \<open>deleted\<close> flag stores or replaces the
  label exactly when fewer than twenty labels are stored; when twenty are stored the
  event changes nothing, whether the label's id is already stored or not. The guard of
  line 151 looks at the count alone.
\<close>

theorem labels_edit_gate:
  "\<not> deleted l \<Longrightarrow>
     applyEvent e (LabelsEdit l) s =
       (if count (labels s) < 20 then s\<lparr>labels := AList.update (label_id l) l (labels s)\<rparr>
        else s)"
  by (simp add: labelsEdit_def upsertById_def count_def)

theorem labels_edit_gate_witness:
  "\<not> deleted (label20 0 ''new'')
   \<and> applyEvent env0 (LabelsEdit (label20 0 ''new'')) initialStore
       = initialStore\<lparr>labels := [labelEntry (label20 0 ''new'')]\<rparr>
   \<and> applyEvent env0 (LabelsEdit (label20 0 ''new'')) fullStore = fullStore"
proof -
  have h: "\<not> deleted (label20 0 ''new'')" by (simp add: label20_def)
  have c: "count (labels fullStore) = 20" by (simp add: fullStore_def fullLabels_def count_def)
  have i: "count (labels initialStore) = 0" by (simp add: initialStore_def count_def)
  from labels_edit_gate [OF h, of env0 initialStore] labels_edit_gate [OF h, of env0 fullStore] h c i
  show ?thesis by (simp add: initialStore_def labelEntry_def)
qed

lemma labels_applyEvent:
  "labels (applyEvent e ev s)
   = (case ev of LabelsEdit l \<Rightarrow> labels (labelsEdit l s) | _ \<Rightarrow> labels s)"
proof (cases ev)
  case (MessagesUpsert ms ty)
  have "labels (fold (messagesUpsertOne e ty) ms s) = labels s"
    by (induction ms arbitrary: s) (simp_all add: messagesUpsertOne_def Let_def chatsUpsert_def)
  then show ?thesis using MessagesUpsert by (simp add: messagesUpsert_def)
qed (simp_all add: connectionUpdate_def messagingHistorySet_def Let_def contactsUpsertEvent_def
      contactsUpdate_def chatsUpsert_def chatsUpdate_def labelsAssociation_def presenceUpdate_def
      chatsDelete_def split: option.splits)

lemma length_alist_update: "length (AList.update k v al) \<le> Suc (length al)"
  by (induction al) auto

lemma labelsEdit_count: "count (labels s) \<le> 20 \<Longrightarrow> count (labels (labelsEdit l s)) \<le> 20"
  using length_delete_le [of "label_id l" "labels s"]
    length_alist_update [of "label_id l" l "labels s"]
  by (auto simp: labelsEdit_def count_def deleteById_def upsertById_def)

lemma applyEvent_count:
  "count (labels s) \<le> 20 \<Longrightarrow> count (labels (applyEvent e ev s)) \<le> 20"
  using labels_applyEvent [of e ev s] labelsEdit_count [of s]
  by (auto split: event.splits)

lemma applyAll_count:
  "count (labels s) \<le> 20 \<Longrightarrow> count (labels (applyAll e evs s)) \<le> 20"
  unfolding applyAll_def
  by (induction evs arbitrary: s) (simp_all add: applyEvent_count)

lemma update_fresh: "k \<notin> fst ` set al \<Longrightarrow> AList.update k v al = al @ [(k, v)]"
  by (induction al) auto

lemma edits_below_capacity:
  "distinct (map label_id (pre @ ls)) \<Longrightarrow> \<forall>l\<in>set ls. \<not> deleted l \<Longrightarrow>
   length (pre @ ls) \<le> 20 \<Longrightarrow> labels s = map labelEntry pre \<Longrightarrow>
   labels (applyAll e (map LabelsEdit ls) s) = map labelEntry (pre @ ls)"
proof (induction ls arbitrary: pre s)
  case Nil
  then show ?case by (simp add: applyAll_def)
next
  case (Cons l ls)
  let ?s = "labelsEdit l s"
  have fresh: "label_id l \<notin> fst ` set (labels s)"
    using Cons.prems(1,4) by (auto simp: labelEntry_def image_iff)
  have "labels ?s = map labelEntry (pre @ [l])"
    using Cons.prems fresh
    by (simp add: labelsEdit_def count_def upsertById_def update_fresh) (simp add: labelEntry_def)
  moreover have "distinct (map label_id ((pre @ [l]) @ ls))" using Cons.prems(1) by simp
  moreover have "\<forall>l\<in>set ls. \<not> deleted l" using Cons.prems(2) by simp
  moreover have "length ((pre @ [l]) @ ls) \<le> 20" using Cons.prems(3) by simp
  ultimately have "labels (applyAll e (map LabelsEdit ls) ?s) = map labelEntry ((pre @ [l]) @ ls)"
    by (rule Cons.IH [rotated 3])
  then show ?case by (simp add: applyAll_def)
qed

lemma applyAll_append: "applyAll e (xs @ ys) s = applyAll e ys (applyAll e xs s)"
  by (simp add: applyAll_def)

lemma edit_at_capacity:
  "\<not> deleted l \<Longrightarrow> length (labels s) = 20 \<Longrightarrow> labels (applyAll e [LabelsEdit l] s) = labels s"
  by (simp add: applyAll_def labelsEdit_def count_def)

lemma twenty_one_edits:
  assumes "length ls = 21" "distinct (map label_id ls)" "\<forall>l\<in>set ls. \<not> deleted l"
  shows "labels (applyAll e (map LabelsEdit ls) initialStore) = map labelEntry (take 20 ls)"
proof -
  have "take (Suc 20) ls = take 20 ls @ [ls ! 20]"
    using assms(1) by (intro take_Suc_conv_app_nth) simp
  moreover have "take (Suc 20) ls = ls" using assms(1) by simp
  ultimately have split: "ls = take 20 ls @ [ls ! 20]" by simp
  have d: "distinct (map label_id ([] @ take 20 ls))"
    using assms(2) by (simp add: distinct_take take_map [symmetric])
  have nd: "\<forall>l\<in>set (take 20 ls). \<not> deleted l"
    using assms(3) by (auto dest: in_set_takeD)
  have first: "labels (applyAll e (map LabelsEdit (take 20 ls)) initialStore)
               = map labelEntry ([] @ take 20 ls)"
    by (rule edits_below_capacity [OF d nd]) (simp_all add: initialStore_def)
  have "labels (applyAll e (map LabelsEdit ls) initialStore)
      = labels (applyAll e [LabelsEdit (ls ! 20)]
                  (applyAll e (map LabelsEdit (take 20 ls)) initialStore))"
    by (subst split) (simp only: map_append applyAll_append list.map)
  also have "\<dots> = labels (applyAll e (map LabelsEdit (take 20 ls)) initialStore)"
    using assms(1,3) first by (intro edit_at_capacity) simp_all
  finally show ?thesis using first by simp
qed

text \<open>
  C9. Whatever events are applied from the initial store, in whatever order, at most
  twenty labels are stored afterwards. Twenty-one \<open>labels.edit\<close> events for labels with
  distinct ids, none flagged deleted, leave exactly the first twenty stored, each as it
  was inserted: the twenty-first is rejected and removes or replaces nothing.
\<close>

theorem labels_never_exceed_20:
  "count (labels (applyAll e evs initialStore)) \<le> 20
   \<and> (length ls = 21 \<and> distinct (map label_id ls) \<and> (\<forall>l\<in>set ls. \<not> deleted l) \<longrightarrow>
        labels (applyAll e (map LabelsEdit ls) initialStore) = map labelEntry (take 20 ls)
        \<and> count (labels (applyAll e (map LabelsEdit ls) initialStore)) = 20)"
proof -
  have "count (labels (applyAll e evs initialStore)) \<le> 20"
    by (rule applyAll_count) (simp add: initialStore_def count_def)
  then show ?thesis by (auto simp: twenty_one_edits count_def)
qed

theorem labels_never_exceed_20_witness:
  "count (labels (applyAll env0 [LabelsEdit (label20 0 ''a''), ChatsDelete [''x'']] initialStore)) \<le> 20
   \<and> length labels21 = 21 \<and> distinct (map label_id labels21)
   \<and> list_all (\<lambda>l. \<not> deleted l) labels21
   \<and> labels (applyAll env0 (map LabelsEdit labels21) initialStore) = map labelEntry (take 20 labels21)
   \<and> count (labels (applyAll env0 (map LabelsEdit labels21) initialStore)) = 20"
proof -
  have h1: "length labels21 = 21" by (simp add: labels21_def)
  have h2: "distinct (map label_id labels21)" by code_simp
  have h3: "list_all (\<lambda>l. \<not> deleted l) labels21" by code_simp
  from h3 have h4: "\<forall>l\<in>set labels21. \<not> deleted l" by (simp add: list_all_iff)
  from labels_never_exceed_20 [of env0 "[LabelsEdit (label20 0 ''a''), ChatsDelete [''x'']]" labels21]
    h1 h2 h3 h4
  show ?thesis by blast
qed

subsection \<open>Chat updates\<close>

lemma set_kdbInsertSorted: "set (kdbInsertSorted cmp key v xs) = insert v (set xs)"
  by (induction xs) auto

lemma find_kdbInsertSorted_self:
  "P v \<Longrightarrow> \<forall>x\<in>set xs. \<not> P x \<Longrightarrow> find P (kdbInsertSorted cmp key v xs) = Some v"
  by (induction xs) auto

lemma find_kdbInsertSorted_other:
  "\<not> P v \<Longrightarrow> find P (kdbInsertSorted cmp key v xs) = find P xs"
  by (induction xs) auto

lemma find_filter_implied:
  "(\<And>x. P x \<Longrightarrow> Q x) \<Longrightarrow> find P (filter Q xs) = find P xs"
  by (induction xs) auto

lemma kdbGet_Some: "kdbGet g db i = Some c \<Longrightarrow> c \<in> set db \<and> g c = i"
  by (auto simp: kdbGet_def find_Some_iff)


lemma chatMutator_id: "chatIdGetter (chatMutator u c) = idStr (chat_id u)"
  by (simp add: chatMutator_def chatIdGetter_def assignChat_def)

lemma chatsUpdateOne_missing:
  "kdbGet chatIdGetter db (idStr (chat_id u)) = None \<Longrightarrow> chatsUpdateOne e u db = db"
  by (simp add: chatsUpdateOne_def kdbUpdate_def)

lemma chatsUpdateOne_get:
  "kdbGet chatIdGetter db (idStr (chat_id u)) = Some c \<Longrightarrow>
   kdbGet chatIdGetter (chatsUpdateOne e u db) (idStr (chat_id u)) = Some (chatMutator u c)"
  by (simp add: chatsUpdateOne_def kdbUpdate_def kdbGet_def kdbDeleteById_def
      find_kdbInsertSorted_self chatMutator_id)

lemma chatsUpdateOne_get_other:
  assumes "j \<noteq> idStr (chat_id u)"
  shows "kdbGet chatIdGetter (chatsUpdateOne e u db) j = kdbGet chatIdGetter db j"
proof -
  have f: "find (\<lambda>w. chatIdGetter w = j) (filter (\<lambda>w. chatIdGetter w \<noteq> idStr (chat_id u)) db)
           = find (\<lambda>w. chatIdGetter w = j) db"
    using assms by (intro find_filter_implied) simp
  show ?thesis using assms
    by (simp add: chatsUpdateOne_def kdbUpdate_def kdbGet_def kdbDeleteById_def
        find_kdbInsertSorted_other chatMutator_id f split: option.splits)
qed

lemma chatsUpdateOne_ids:
  "chatIdGetter ` set (chatsUpdateOne e u db) = chatIdGetter ` set db"
proof (cases "kdbGet chatIdGetter db (idStr (chat_id u))")
  case None
  then show ?thesis by (simp add: chatsUpdateOne_missing)
next
  case (Some c)
  then have "c \<in> set db" "chatIdGetter c = idStr (chat_id u)"
    by (auto dest: kdbGet_Some)
  then have "idStr (chat_id u) \<in> chatIdGetter ` set db" by (metis imageI)
  then show ?thesis using Some
    by (auto simp: chatsUpdateOne_def kdbUpdate_def kdbDeleteById_def set_kdbInsertSorted
        chatMutator_id)
qed

lemma chatMutator_fields:
  "(\<forall>n. unreadCount u = Val n \<and> 0 < n \<longrightarrow>
        unreadCount (chatMutator u c) = Val (orZero (unreadCount c) + n))
   \<and> (\<forall>n. unreadCount u = Val n \<and> n \<le> 0 \<longrightarrow> unreadCount (chatMutator u c) = Val n)
   \<and> (unreadCount u = Nullish \<longrightarrow> unreadCount (chatMutator u c) = Nullish)
   \<and> (unreadCount u = Absent \<longrightarrow> unreadCount (chatMutator u c) = unreadCount c)
   \<and> pinned (chatMutator u c) = assignField (pinned c) (pinned u)
   \<and> archived (chatMutator u c) = assignField (archived c) (archived u)
   \<and> conversationTimestamp (chatMutator u c)
       = assignField (conversationTimestamp c) (conversationTimestamp u)
   \<and> chat_name (chatMutator u c) = assignField (chat_name c) (chat_name u)"
  by (auto simp: chatMutator_def assignChat_def)

text \<open>
  C3. A \<open>chats.update\<close> with one update \<open>u\<close>. When the chat \<open>u\<close> names is stored as \<open>c\<close>,
  the chat stored under that id afterwards has: for a positive incoming \<open>unreadCount\<close>,
  the stored count (\<open>0\<close> if it had none) plus the incoming one; for an incoming value
  that is zero or negative, or \<open>null\<close>, that value itself; for an update without
  \<open>unreadCount\<close>, the count it had; every other field merged field by field. Every other
  chat is as before and no id is added or removed. When the chat is not stored, the
  store is unchanged. A longer batch is its updates applied one after the other.
\<close>

theorem chats_update_unread:
  "(kdbGet chatIdGetter (chats s) (idStr (chat_id u)) = Some c \<longrightarrow>
      (\<exists>c'. kdbGet chatIdGetter (chats (applyEvent e (ChatsUpdate [u]) s)) (idStr (chat_id u))
               = Some c'
         \<and> (\<forall>n. unreadCount u = Val n \<and> 0 < n \<longrightarrow>
                unreadCount c' = Val (orZero (unreadCount c) + n))
         \<and> (\<forall>n. unreadCount u = Val n \<and> n \<le> 0 \<longrightarrow> unreadCount c' = Val n)
         \<and> (unreadCount u = Nullish \<longrightarrow> unreadCount c' = Nullish)
         \<and> (unreadCount u = Absent \<longrightarrow> unreadCount c' = unreadCount c)
         \<and> pinned c' = assignField (pinned c) (pinned u)
         \<and> archived c' = assignField (archived c) (archived u)
         \<and> conversationTimestamp c'
             = assignField (conversationTimestamp c) (conversationTimestamp u)
         \<and> chat_name c' = assignField (chat_name c) (chat_name u))
      \<and> (\<forall>j. j \<noteq> idStr (chat_id u) \<longrightarrow>
            kdbGet chatIdGetter (chats (applyEvent e (ChatsUpdate [u]) s)) j
              = kdbGet chatIdGetter (chats s) j)
      \<and> chatIdGetter ` set (chats (applyEvent e (ChatsUpdate [u]) s))
          = chatIdGetter ` set (chats s))
   \<and> (kdbGet chatIdGetter (chats s) (idStr (chat_id u)) = None \<longrightarrow>
        applyEvent e (ChatsUpdate [u]) s = s)
   \<and> applyEvent e (ChatsUpdate (u # us)) s
       = applyEvent e (ChatsUpdate us) (applyEvent e (ChatsUpdate [u]) s)"
proof -
  have batch: "applyEvent e (ChatsUpdate (u # us)) s
       = applyEvent e (ChatsUpdate us) (applyEvent e (ChatsUpdate [u]) s)"
    by (simp add: chatsUpdate_def)
  have ev: "chats (applyEvent e (ChatsUpdate [u]) s) = chatsUpdateOne e u (chats s)"
    by (simp add: chatsUpdate_def)
  have missing: "kdbGet chatIdGetter (chats s) (idStr (chat_id u)) = None \<Longrightarrow>
        applyEvent e (ChatsUpdate [u]) s = s"
    by (simp add: chatsUpdate_def chatsUpdateOne_missing)
  have one: "(kdbGet chatIdGetter (chats s) (idStr (chat_id u)) = Some c \<longrightarrow>
      (\<exists>c'. kdbGet chatIdGetter (chats (applyEvent e (ChatsUpdate [u]) s)) (idStr (chat_id u))
               = Some c'
         \<and> (\<forall>n. unreadCount u = Val n \<and> 0 < n \<longrightarrow>
                unreadCount c' = Val (orZero (unreadCount c) + n))
         \<and> (\<forall>n. unreadCount u = Val n \<and> n \<le> 0 \<longrightarrow> unreadCount c' = Val n)
         \<and> (unreadCount u = Nullish \<longrightarrow> unreadCount c' = Nullish)
         \<and> (unreadCount u = Absent \<longrightarrow> unreadCount c' = unreadCount c)
         \<and> pinned c' = assignField (pinned c) (pinned u)
         \<and> archived c' = assignField (archived c) (archived u)
         \<and> conversationTimestamp c'
             = assignField (conversationTimestamp c) (conversationTimestamp u)
         \<and> chat_name c' = assignField (chat_name c) (chat_name u))
      \<and> (\<forall>j. j \<noteq> idStr (chat_id u) \<longrightarrow>
            kdbGet chatIdGetter (chats (applyEvent e (ChatsUpdate [u]) s)) j
              = kdbGet chatIdGetter (chats s) j)
      \<and> chatIdGetter ` set (chats (applyEvent e (ChatsUpdate [u]) s))
          = chatIdGetter ` set (chats s))"
    unfolding ev
    using chatMutator_fields [of u c] chatsUpdateOne_get [of "chats s" u c e]
      chatsUpdateOne_get_other [of _ u e "chats s"] chatsUpdateOne_ids [of e u "chats s"]
    by simp
  from one missing batch show ?thesis by blast
qed

theorem chats_update_unread_witness:
  "kdbGet chatIdGetter (chats storeY) (idStr (chat_id (updateUnread ''y'' 3))) = Some chatTs5
   \<and> (\<exists>c'. kdbGet chatIdGetter (chats (applyEvent env0 (ChatsUpdate [updateUnread ''y'' 3]) storeY))
              (idStr (chat_id (updateUnread ''y'' 3))) = Some c'
          \<and> unreadCount c' = Val 5)
   \<and> map unreadCount (chats (applyEvent env0 (ChatsUpdate [updateUnread ''y'' 3]) storeY)) = [Val 5]
   \<and> map unreadCount
        (chats (applyAll env0 [ChatsUpdate [updateUnread ''y'' 3], ChatsUpdate [updateUnread ''y'' 0]] storeY))
       = [Val 0]
   \<and> kdbGet chatIdGetter (chats storeY) (idStr (chat_id (updateUnread ''n'' 3))) = None
   \<and> applyEvent env0 (ChatsUpdate [updateUnread ''n'' 3]) storeY = storeY"
proof -
  have h1: "kdbGet chatIdGetter (chats storeY) (idStr (chat_id (updateUnread ''y'' 3))) = Some chatTs5"
    by code_simp
  have h2: "kdbGet chatIdGetter (chats storeY) (idStr (chat_id (updateUnread ''n'' 3))) = None"
    by code_simp
  have u: "unreadCount (updateUnread ''y'' 3) = Val 3 \<and> (0::int) < 3" by (simp add: updateUnread_def)
  have o: "orZero (unreadCount chatTs5) + 3 = 5" by (simp add: chatTs5_def)
  from chats_update_unread [of storeY "updateUnread ''y'' 3" chatTs5 env0 "[]"] h1 u o
  have c1: "\<exists>c'. kdbGet chatIdGetter (chats (applyEvent env0 (ChatsUpdate [updateUnread ''y'' 3]) storeY))
              (idStr (chat_id (updateUnread ''y'' 3))) = Some c'
          \<and> unreadCount c' = Val 5"
    by (metis (no_types, lifting))
  from chats_update_unread [of storeY "updateUnread ''n'' 3" chatTs5 env0 "[]"] h2
  have c2: "applyEvent env0 (ChatsUpdate [updateUnread ''n'' 3]) storeY = storeY" by blast
  have c3: "map unreadCount (chats (applyEvent env0 (ChatsUpdate [updateUnread ''y'' 3]) storeY)) = [Val 5]"
    by code_simp
  have c4: "map unreadCount
        (chats (applyAll env0 [ChatsUpdate [updateUnread ''y'' 3], ChatsUpdate [updateUnread ''y'' 0]] storeY))
       = [Val 0]"
    by code_simp
  from h1 h2 c1 c2 c3 c4 show ?thesis by blast
qed

subsection \<open>The bootstrap snapshot\<close>









lemma set_alist_update: "set (AList.update k v al) \<subseteq> insert (k, v) (set al)"
  by (induction al) auto
















subsection \<open>Contact updates\<close>

lemma keyedById_update:
  "keyedById m \<Longrightarrow> contact_id c = k \<Longrightarrow> keyedById (AList.update k c m)"
  using set_alist_update [of k c m] by (auto simp: keyedById_def list_all_iff)

lemma keyedById_delete: "keyedById m \<Longrightarrow> keyedById (AList.delete k m)"
  by (auto simp: keyedById_def list_all_iff AList.delete_eq)

lemma keyedById_fold_delete: "keyedById m \<Longrightarrow> keyedById (fold AList.delete ks m)"
  by (induction ks arbitrary: m) (simp_all add: keyedById_delete)

lemma keyedById_lookup: "keyedById m \<Longrightarrow> map_of m k = Some c \<Longrightarrow> contact_id c = k"
  by (auto simp: keyedById_def list_all_iff dest!: map_of_SomeD)

lemma spreadContact_id: "contact_id (spreadContact old c) = contact_id c"
  by (simp add: spreadContact_def assignContact_def split: option.splits)

lemma keyedById_upsertLoop:
  "keyedById m \<Longrightarrow> keyedById (snd (contactsUpsertLoop cs (old, m)))"
  by (induction cs arbitrary: old m) (simp_all add: keyedById_update spreadContact_id)

lemma applyImgUrl_id: "contact_id (applyImgUrl e u c) = contact_id c"
  by (simp add: applyImgUrl_def)

lemma keyedById_updateOne:
  "keyedById m \<Longrightarrow> keyedById (fst (contactsUpdateOne e u m))"
  by (auto simp: contactsUpdateOne_def Let_def applyImgUrl_id assignContact_def
      intro!: keyedById_update dest: keyedById_lookup split: option.splits)

lemma keyedById_updateLoop:
  "keyedById m \<Longrightarrow> keyedById (contactsUpdateLoop e us m)"
proof (induction us arbitrary: m)
  case Nil
  then show ?case by simp
next
  case (Cons u us)
  from Cons.prems have k: "keyedById (fst (contactsUpdateOne e u m))"
    by (rule keyedById_updateOne)
  obtain m' x where r: "contactsUpdateOne e u m = (m', x)" by (cases "contactsUpdateOne e u m")
  with k have "keyedById m'" by simp
  then show ?case using r Cons.IH [of m'] by (cases x) simp_all
qed

lemma contacts_messagesUpsert: "contacts (messagesUpsert e ms ty s) = contacts s"
proof -
  have "contacts (fold (messagesUpsertOne e ty) ms s) = contacts s"
    by (induction ms arbitrary: s) (simp_all add: messagesUpsertOne_def Let_def chatsUpsert_def)
  then show ?thesis by (simp add: messagesUpsert_def)
qed

lemma keyedById_applyEvent:
  "keyedById (contacts s) \<Longrightarrow> keyedById (contacts (applyEvent e ev s))"
  by (cases ev)
    (simp_all add: connectionUpdate_def messagingHistorySet_def Let_def contactsUpsertEvent_def
      contactsUpdate_def chatsUpsert_def chatsUpdate_def labelsEdit_def labelsAssociation_def
      presenceUpdate_def chatsDelete_def contacts_messagesUpsert contactsUpsert_def
      keyedById_upsertLoop keyedById_fold_delete keyedById_updateLoop split: option.splits)

text \<open>In every store the events can produce, each contact is stored under its own id.\<close>

lemma keyedById_reachable: "keyedById (contacts (applyAll e evs initialStore))"
proof -
  have "keyedById (contacts s) \<Longrightarrow> keyedById (contacts (fold (applyEvent e) evs s))" for s
    by (induction evs arbitrary: s) (simp_all add: keyedById_applyEvent)
  then show ?thesis by (simp add: applyAll_def initialStore_def keyedById_def)
qed

lemma assignField_same: "assignField x x = x"
  by (cases x) auto

lemma assignContact_same: "assignContact c c = c"
  by (simp add: assignContact_def assignField_same)

lemma contactsUpdateOne_found:
  assumes "contactKey e m u = Some k" "map_of m k = Some c" "contact_id c = k"
  shows "contactsUpdateOne e u m = (AList.update k (applyImgUrl e u c) m, Continues)"
  using assms
  by (simp add: contactsUpdateOne_def Let_def update_conv' applyImgUrl_id assignContact_same)

text \<open>
  One entry \<open>u\<close> that the loop reaches and that finds the stored contact \<open>c\<close> under the
  key \<open>k\<close> (by \<open>u\<close>'s id or by fingerprint), in a store that keeps each contact under its
  own id, as every store the events produce does. The pass over the entry falls through
  to the next entry, changes no other contact, and leaves under \<open>k\<close> a contact whose
  \<open>imgUrl\<close> is: for \<open>changed\<close> with a socket, what \<open>profilePictureUrl\<close> gives for the
  contact's id, and \<open>undefined\<close> when it gives nothing; for \<open>changed\<close> without a socket,
  \<open>undefined\<close>, whatever was stored; for \<open>removed\<close>, no property at all; for anything else,
  what it was. Stated for the entry of a one-entry batch: an entry further down a batch
  is reached only if every entry before it found a contact.
\<close>

lemma contacts_update_reached:
  assumes "keyedById (contacts s)"
    and "contactKey e (contacts s) u = Some k"
    and "map_of (contacts s) k = Some c"
  shows "\<exists>c'. contactsUpdateOne e u (contacts s)
                 = (contacts (applyEvent e (ContactsUpdate [u]) s), Continues)
     \<and> map_of (contacts (applyEvent e (ContactsUpdate [u]) s)) k = Some c'
     \<and> (imgUrl u = Val ''changed'' \<longrightarrow>
          (\<forall>sock. socket e = Some sock \<longrightarrow>
             imgUrl c' = (case sock (contact_id c) of Some url \<Rightarrow> Val url | None \<Rightarrow> Nullish))
          \<and> (socket e = None \<longrightarrow> imgUrl c' = Nullish))
     \<and> (imgUrl u = Val ''removed'' \<longrightarrow> imgUrl c' = Absent)
     \<and> (imgUrl u \<noteq> Val ''changed'' \<and> imgUrl u \<noteq> Val ''removed'' \<longrightarrow> imgUrl c' = imgUrl c)
     \<and> (\<forall>j. j \<noteq> k \<longrightarrow>
          map_of (contacts (applyEvent e (ContactsUpdate [u]) s)) j = map_of (contacts s) j)"
proof -
  have i: "contact_id c = k" using assms(1,3) by (rule keyedById_lookup)
  have one: "contactsUpdateOne e u (contacts s)
             = (AList.update k (applyImgUrl e u c) (contacts s), Continues)"
    using assms(2,3) i by (rule contactsUpdateOne_found)
  then have ev: "contacts (applyEvent e (ContactsUpdate [u]) s)
                 = AList.update k (applyImgUrl e u c) (contacts s)"
    by (simp add: contactsUpdate_def)
  have "map_of (contacts (applyEvent e (ContactsUpdate [u]) s)) k = Some (applyImgUrl e u c)"
    unfolding ev by (simp add: update_conv')
  moreover have "\<forall>j. j \<noteq> k \<longrightarrow>
      map_of (contacts (applyEvent e (ContactsUpdate [u]) s)) j = map_of (contacts s) j"
    unfolding ev by (simp add: update_conv')
  ultimately show ?thesis using one ev
    by (auto simp: applyImgUrl_def)
qed

text \<open>
  An entry that finds a contact changes nothing of it but \<open>imgUrl\<close>: the other fields of
  the update are not merged.
\<close>

lemma contacts_update_ignores_fields:
  assumes "keyedById m" "contactKey e m u = Some k" "map_of m k = Some c"
  shows "\<exists>c'. map_of (fst (contactsUpdateOne e u m)) k = Some c'
           \<and> contact_name c' = contact_name c \<and> notify c' = notify c"
proof -
  have "contact_id c = k" using assms(1,3) by (rule keyedById_lookup)
  with assms(2,3) have "contactsUpdateOne e u m = (AList.update k (applyImgUrl e u c) m, Continues)"
    by (rule contactsUpdateOne_found)
  then show ?thesis by (simp add: update_conv' applyImgUrl_def)
qed

text \<open>
  C5 at a concrete input: the contact \<open>1234567890@s.whatsapp.net\<close> is stored with the name
  \<open>Old\<close>; a \<open>contacts.update\<close> for that id with the name \<open>New\<close> finds it and leaves the
  contact map as it was, the name still \<open>Old\<close>. Line 124 assigns the contact to itself;
  the fields of the update are never read after line 118.
\<close>

theorem contacts_update_keeps_old_name:
  "contactKey env0 (contacts storeJ) updateName = Some ''1234567890@s.whatsapp.net''
   \<and> contact_name updateName = Val ''New''
   \<and> contacts (applyEvent env0 (ContactsUpdate [updateName]) storeJ) = contacts storeJ
   \<and> map (contact_name \<circ> snd) (contacts (applyEvent env0 (ContactsUpdate [updateName]) storeJ))
       = [Val ''Old'']"
  by code_simp

text \<open>
  An entry that finds no contact changes nothing, and no later entry of the batch is
  processed.
\<close>

lemma contacts_update_unmatched_stops:
  assumes "contactKey e m u = Some k" "map_of m k = None"
  shows "contactsUpdateLoop e (u # us) m = m"
  using assms by (simp add: contactsUpdateOne_def)

text \<open>
  C6 at a concrete input: the entry \<open>zzz\<close> matches no contact (the key looked up is the
  empty string, which is not stored). Alone, the entry that removes the picture of
  \<open>1234567890@s.whatsapp.net\<close> removes it; placed after \<open>zzz\<close> in one batch it is never
  processed and the picture stays: the \<open>return\<close> of line 122 leaves the handler.
\<close>

theorem contacts_update_returns_early:
  "contactKey env0 (contacts storeJ) updateUnknown = Some ''''
   \<and> map_of (contacts storeJ) '''' = None
   \<and> map (imgUrl \<circ> snd) (contacts (applyEvent env0 (ContactsUpdate [updateRemoved]) storeJ))
       = [Absent]
   \<and> map (imgUrl \<circ> snd)
        (contacts (applyEvent env0 (ContactsUpdate [updateUnknown, updateRemoved]) storeJ))
       = [Val ''https://old.example/p.jpg'']"
  by code_simp

text \<open>
  C7 at a concrete input, with a socket that answers every id: alone, the entry keyed by
  the fingerprint \<open>FIT\<close> with \<open>imgUrl = 'changed'\<close> finds the contact
  \<open>1234567890@s.whatsapp.net\<close> and stores the URL the socket gives for that id; placed
  after the unmatched entry \<open>zzz\<close> in one batch it still finds the contact, but is never
  processed, and the old picture stays.
\<close>

theorem contacts_update_imgUrl_skipped:
  "contactKey env1 (contacts storeJ) updateByHash = Some ''1234567890@s.whatsapp.net''
   \<and> imgUrl updateByHash = Val ''changed''
   \<and> map (imgUrl \<circ> snd) (contacts (applyEvent env1 (ContactsUpdate [updateByHash]) storeJ))
       = [Val ''https://pps.example/1234567890@s.whatsapp.net'']
   \<and> contacts (applyEvent env1 (ContactsUpdate [updateUnknown]) storeJ) = contacts storeJ
   \<and> map (imgUrl \<circ> snd)
        (contacts (applyEvent env1 (ContactsUpdate [updateUnknown, updateByHash]) storeJ))
       = [Val ''https://old.example/p.jpg'']"
  by code_simp

subsection \<open>The key of a message list\<close>

lemma idStr_jidToId: "idStr (jidToId r) = (if r = None then ''undefined'' else ''[object Object]'')"
  by (cases r) (simp_all add: jidToId_def)

text \<open>
  Whatever \<open>jidDecode\<close> returns, \<open>messages.upsert\<close> files a message under one of two keys.
\<close>

lemma messages_upsert_key:
  "fst ` set (messages (applyEvent e (MessagesUpsert [msg] ''append'') s))
   = insert (if jidDecode e (remoteJid (msg_key msg)) = None then ''undefined''
             else ''[object Object]'')
       (fst ` set (messages s))"
  by (simp add: messagesUpsert_def messagesUpsertOne_def Let_def upsertMessage_def dom_update
      idStr_jidToId)

text \<open>
  C4 at a concrete input: two messages of the chats \<open>1234567890@s.whatsapp.net\<close> and
  \<open>555@s.whatsapp.net\<close>. Delivered by \<open>messages.upsert\<close> with type \<open>append\<close> they end up in
  one list under the key \<open>[object Object]\<close>; delivered by \<open>messaging-history.set\<close> each is
  in the list of its own \<open>remoteJid\<close>.
\<close>

theorem messages_upsert_key_evaluated:
  "messages (applyEvent env0 (MessagesUpsert [msg1, msg2] ''append'') initialStore)
     = [(''[object Object]'', [msg1, msg2])]
   \<and> messages (applyEvent env0 (MessagingHistorySet [] [] [msg1, msg2] False) initialStore)
     = [(''1234567890@s.whatsapp.net'', [msg1]), (''555@s.whatsapp.net'', [msg2])]"
  by code_simp

subsection \<open>The order of the chat collection\<close>











end
